theory Spec2Isabelle
  imports Main "HOL-Library.Word"
begin

section \<open>The passkey relying-party backend (backend/server.js)\<close>

text \<open>
  The backend keeps three in-memory tables (\<^verbatim>\<open>db.users\<close>, \<^verbatim>\<open>db.regOptions\<close>,
  \<^verbatim>\<open>db.authOptions\<close>) and serves four POST handlers. Each handler is embedded as a
  function from the tables and the request body to the HTTP response and the new tables.

  The four functions of \<^verbatim>\<open>@simplewebauthn/server\<close> that the handlers call are not part of
  the repository. Each handler takes the one it calls as a parameter: a function from the
  argument object the handler builds to either the message of the error it throws
  (\<open>Inl\<close>) or the object it returns (\<open>Inr\<close>). Two calls of a handler may be given two
  different functions, which is how a random challenge is modelled.

  A handler is embedded as one atomic step: the interleaving of two requests at an
  \<^verbatim>\<open>await\<close> is not modelled. The \<^verbatim>\<open>username\<close> of a request body is a JSON string or is
  absent; the \<^verbatim>\<open>credential\<close> is an object or is absent (every falsy value counts as
  absent, which is all the handlers ask of it).
\<close>

subsection \<open>Data\<close>

type_synonym bytes = "8 word list"

datatype device_type = SingleDevice | MultiDevice

text \<open>
  A stored passkey, as \<^verbatim>\<open>newPasskey\<close> builds it. The field \<^verbatim>\<open>id\<close> is named \<open>pk_id\<close>
  here, \<open>id\<close> being the identity function of HOL.
\<close>

record passkey =
  pk_id :: string
  publicKey :: bytes
  counter :: nat
  transports :: "string list option"
  deviceType :: device_type
  backedUp :: bool

record user =
  username :: string
  passkeys :: "passkey list"

text \<open>
  The options object a generator returns. The handlers read its \<^verbatim>\<open>challenge\<close> only; the
  other fields are carried along as \<open>opt_json\<close>.
\<close>

record options =
  challenge :: string
  opt_json :: string

record db =
  users :: "string \<rightharpoonup> user"
  regOptions :: "string \<rightharpoonup> options"
  authOptions :: "string \<rightharpoonup> options"

definition db0 :: db where
  "db0 = \<lparr>users = Map.empty, regOptions = Map.empty, authOptions = Map.empty\<rparr>"

record config =
  rpID :: string
  ORIGINS :: "string list"

subsection \<open>Requests and responses\<close>

text \<open>
  The \<^verbatim>\<open>credential\<close> of a verify request: the handlers read its \<^verbatim>\<open>id\<close> (which may be
  missing) and hand the whole object to the verifier.
\<close>

record client_credential =
  cc_id :: "string option"
  cc_json :: string

record verify_body =
  body_username :: "string option"
  body_credential :: "client_credential option"

datatype response =
    Status400 string
  | Json_options options
  | Json_verified bool
  | Rejected string

text \<open>
  \<^verbatim>\<open>!username\<close> holds of a missing username and of the empty string; the handlers below
  test it as \<open>None\<close> or \<open>Some []\<close>.
\<close>

subsection \<open>The library calls, as the handlers make them\<close>

record descriptor =
  d_id :: string
  d_transports :: "string list option"

record authenticator_selection =
  residentKey :: string
  sel_userVerification :: string

record registration_options_args =
  rpName :: string
  gr_rpID :: string
  userName :: string
  userDisplayName :: string
  userID :: bytes
  attestationType :: string
  authenticatorSelection :: authenticator_selection
  excludeCredentials :: "descriptor list"

record authentication_options_args =
  ga_rpID :: string
  ga_userVerification :: string
  allowCredentials :: "descriptor list"

record registration_verify_args =
  vr_response :: client_credential
  vr_expectedChallenge :: string
  vr_expectedOrigin :: "string list"
  vr_expectedRPID :: string

record webauthn_credential =
  wc_id :: string
  wc_publicKey :: bytes
  wc_counter :: nat
  wc_transports :: "string list option"

record registration_info =
  ri_credential :: webauthn_credential
  credentialDeviceType :: device_type
  credentialBackedUp :: bool

record registration_verification =
  vr_verified :: bool
  registrationInfo :: "registration_info option"

record authentication_verify_args =
  va_response :: client_credential
  va_expectedChallenge :: string
  va_expectedOrigin :: "string list"
  va_expectedRPID :: string
  va_credential :: webauthn_credential

record authentication_info =
  newCounter :: nat

record authentication_verification =
  va_verified :: bool
  authenticationInfo :: "authentication_info option"

type_synonym generateRegistrationOptions = "registration_options_args \<Rightarrow> string + options"
type_synonym generateAuthenticationOptions = "authentication_options_args \<Rightarrow> string + options"
type_synonym verifyRegistrationResponse =
  "registration_verify_args \<Rightarrow> string + registration_verification"
type_synonym verifyAuthenticationResponse =
  "authentication_verify_args \<Rightarrow> string + authentication_verification"

text \<open>\<^verbatim>\<open>isoUint8Array.fromUTF8String\<close>: a \<open>string\<close> is already a sequence of bytes.\<close>

definition fromUTF8String :: "string \<Rightarrow> bytes" where
  "fromUTF8String s = map (\<lambda>c. of_nat (of_char c)) s"

subsection \<open>getOrCreateUser\<close>

definition getOrCreateUser :: "db \<Rightarrow> string \<Rightarrow> user \<times> db" where
  "getOrCreateUser d name =
     (case users d name of
        Some user \<Rightarrow> (user, d)
      | None \<Rightarrow>
          (let user = \<lparr>username = name, passkeys = []\<rparr>
           in (user, d\<lparr>users := (users d)(name \<mapsto> user)\<rparr>)))"

subsection \<open>POST /register/options\<close>

definition descriptors :: "passkey list \<Rightarrow> descriptor list" where
  "descriptors pks = map (\<lambda>pk. \<lparr>d_id = pk_id pk, d_transports = transports pk\<rparr>) pks"

definition registration_args :: "config \<Rightarrow> string \<Rightarrow> descriptor list \<Rightarrow> registration_options_args" where
  "registration_args cfg name excl =
     \<lparr>rpName = ''Demo Passkeys'', gr_rpID = rpID cfg, userName = name, userDisplayName = name,
      userID = fromUTF8String name, attestationType = ''none'',
      authenticatorSelection = \<lparr>residentKey = ''preferred'', sel_userVerification = ''preferred''\<rparr>,
      excludeCredentials = excl\<rparr>"

text \<open>
  The call of the generator is not inside a \<^verbatim>\<open>try\<close>: when it throws, the handler's promise
  rejects (\<open>Rejected\<close>), after \<^verbatim>\<open>getOrCreateUser\<close> has run.
\<close>

definition register_options ::
  "generateRegistrationOptions \<Rightarrow> config \<Rightarrow> db \<Rightarrow> string option \<Rightarrow> response \<times> db" where
  "register_options gen cfg d body =
     (case body of
        None \<Rightarrow> (Status400 ''Falta username'', d)
      | Some name \<Rightarrow>
          if name = [] then (Status400 ''Falta username'', d)
          else
            (let (user, d1) = getOrCreateUser d name;
                 excl = descriptors (passkeys user)
             in case gen (registration_args cfg name excl) of
                  Inl msg \<Rightarrow> (Rejected msg, d1)
                | Inr opts \<Rightarrow> (Json_options opts, d1\<lparr>regOptions := (regOptions d1)(name \<mapsto> opts)\<rparr>)))"

subsection \<open>POST /register/verify\<close>

definition newPasskey :: "registration_info \<Rightarrow> passkey" where
  "newPasskey info =
     \<lparr>pk_id = wc_id (ri_credential info),
      publicKey = wc_publicKey (ri_credential info),
      counter = wc_counter (ri_credential info),
      transports = wc_transports (ri_credential info),
      deviceType = credentialDeviceType info,
      backedUp = credentialBackedUp info\<rparr>"

text \<open>\<^verbatim>\<open>user.passkeys.push(pk)\<close> on the user object stored under \<open>name\<close>.\<close>

definition push_passkey :: "db \<Rightarrow> string \<Rightarrow> user \<Rightarrow> passkey \<Rightarrow> db" where
  "push_passkey d name user pk =
     d\<lparr>users := (users d)(name \<mapsto> user\<lparr>passkeys := passkeys user @ [pk]\<rparr>)\<rparr>"

definition registration_verify_args ::
  "config \<Rightarrow> client_credential \<Rightarrow> options \<Rightarrow> registration_verify_args" where
  "registration_verify_args cfg cred opts =
     \<lparr>vr_response = cred, vr_expectedChallenge = challenge opts,
      vr_expectedOrigin = ORIGINS cfg, vr_expectedRPID = rpID cfg\<rparr>"

text \<open>The body of the \<^verbatim>\<open>try\<close>, with its \<^verbatim>\<open>catch\<close>.\<close>

definition register_try ::
  "verifyRegistrationResponse \<Rightarrow> config \<Rightarrow> db \<Rightarrow> string \<Rightarrow> user \<Rightarrow> client_credential \<Rightarrow> options
     \<Rightarrow> response \<times> db" where
  "register_try verify cfg d name user cred opts =
     (case verify (registration_verify_args cfg cred opts) of
        Inl msg \<Rightarrow> (Status400 msg, d)
      | Inr verification \<Rightarrow>
          (Json_verified (vr_verified verification),
           case registrationInfo verification of
             Some info \<Rightarrow>
               if vr_verified verification then push_passkey d name user (newPasskey info) else d
           | None \<Rightarrow> d))"

definition register_verify ::
  "verifyRegistrationResponse \<Rightarrow> config \<Rightarrow> db \<Rightarrow> verify_body \<Rightarrow> response \<times> db" where
  "register_verify verify cfg d body =
     (case (body_username body, body_credential body) of
        (Some name, Some cred) \<Rightarrow>
          if name = [] then (Status400 ''Faltan datos'', d)
          else
            (case users d name of
               None \<Rightarrow> (Status400 ''Usuario no existe'', d)
             | Some user \<Rightarrow>
                 (case regOptions d name of
                    None \<Rightarrow> (Status400 ''No hay options de registro activas'', d)
                  | Some opts \<Rightarrow>
                      (let (res, d1) = register_try verify cfg d name user cred opts
                       in (res, d1\<lparr>regOptions := (regOptions d1)(name := None)\<rparr>))))
      | _ \<Rightarrow> (Status400 ''Faltan datos'', d))"

subsection \<open>POST /login/options\<close>

definition authentication_args :: "config \<Rightarrow> descriptor list \<Rightarrow> authentication_options_args" where
  "authentication_args cfg allow =
     \<lparr>ga_rpID = rpID cfg, ga_userVerification = ''preferred'', allowCredentials = allow\<rparr>"

definition login_options ::
  "generateAuthenticationOptions \<Rightarrow> config \<Rightarrow> db \<Rightarrow> string option \<Rightarrow> response \<times> db" where
  "login_options gen cfg d body =
     (case body of
        None \<Rightarrow> (Status400 ''Falta username'', d)
      | Some name \<Rightarrow>
          if name = [] then (Status400 ''Falta username'', d)
          else
            (case users d name of
               None \<Rightarrow> (Status400 ''Usuario no existe'', d)
             | Some user \<Rightarrow>
                 if passkeys user = [] then (Status400 ''Usuario sin passkeys'', d)
                 else
                   (case gen (authentication_args cfg (descriptors (passkeys user))) of
                      Inl msg \<Rightarrow> (Status400 msg, d)
                    | Inr opts \<Rightarrow>
                        (Json_options opts, d\<lparr>authOptions := (authOptions d)(name \<mapsto> opts)\<rparr>))))"

subsection \<open>POST /login/verify\<close>

text \<open>
  \<^verbatim>\<open>user.passkeys.find(pk => pk.id === credential.id)\<close> is the first passkey with that
  id; \<^verbatim>\<open>passkey.counter = newCounter\<close> then writes into that element of the array.
\<close>

definition find_passkey :: "client_credential \<Rightarrow> passkey list \<Rightarrow> passkey option" where
  "find_passkey cred pks = find (\<lambda>pk. Some (pk_id pk) = cc_id cred) pks"

fun set_counter :: "client_credential \<Rightarrow> nat \<Rightarrow> passkey list \<Rightarrow> passkey list" where
  "set_counter cred n [] = []"
| "set_counter cred n (pk # pks) =
     (if Some (pk_id pk) = cc_id cred then pk\<lparr>counter := n\<rparr> # pks
      else pk # set_counter cred n pks)"

definition authentication_verify_args ::
  "config \<Rightarrow> client_credential \<Rightarrow> options \<Rightarrow> passkey \<Rightarrow> authentication_verify_args" where
  "authentication_verify_args cfg cred opts pk =
     \<lparr>va_response = cred, va_expectedChallenge = challenge opts,
      va_expectedOrigin = ORIGINS cfg, va_expectedRPID = rpID cfg,
      va_credential = \<lparr>wc_id = pk_id pk, wc_publicKey = publicKey pk, wc_counter = counter pk,
                       wc_transports = transports pk\<rparr>\<rparr>"

definition login_try ::
  "verifyAuthenticationResponse \<Rightarrow> config \<Rightarrow> db \<Rightarrow> string \<Rightarrow> user \<Rightarrow> client_credential \<Rightarrow> options
     \<Rightarrow> response \<times> db" where
  "login_try verify cfg d name user cred opts =
     (case find_passkey cred (passkeys user) of
        None \<Rightarrow> (Status400 ''Credencial no encontrada'', d)
      | Some pk \<Rightarrow>
          (case verify (authentication_verify_args cfg cred opts pk) of
             Inl msg \<Rightarrow> (Status400 msg, d)
           | Inr verification \<Rightarrow>
               (Json_verified (va_verified verification),
                case authenticationInfo verification of
                  Some info \<Rightarrow>
                    if va_verified verification
                    then d\<lparr>users := (users d)(name \<mapsto>
                           user\<lparr>passkeys := set_counter cred (newCounter info) (passkeys user)\<rparr>)\<rparr>
                    else d
                | None \<Rightarrow> d)))"

definition login_verify ::
  "verifyAuthenticationResponse \<Rightarrow> config \<Rightarrow> db \<Rightarrow> verify_body \<Rightarrow> response \<times> db" where
  "login_verify verify cfg d body =
     (case (body_username body, body_credential body) of
        (Some name, Some cred) \<Rightarrow>
          if name = [] then (Status400 ''Faltan datos'', d)
          else
            (case users d name of
               None \<Rightarrow> (Status400 ''Usuario no existe'', d)
             | Some user \<Rightarrow>
                 (case authOptions d name of
                    None \<Rightarrow> (Status400 ''No hay options de login activas'', d)
                  | Some opts \<Rightarrow>
                      (let (res, d1) = login_try verify cfg d name user cred opts
                       in (res, d1\<lparr>authOptions := (authOptions d1)(name := None)\<rparr>))))
      | _ \<Rightarrow> (Status400 ''Faltan datos'', d))"

subsection \<open>The states the server can be in\<close>

inductive reachable :: "config \<Rightarrow> db \<Rightarrow> bool" for cfg :: config where
  start: "reachable cfg db0"
| register_options: "reachable cfg d \<Longrightarrow> reachable cfg (snd (register_options gr cfg d u))"
| register_verify: "reachable cfg d \<Longrightarrow> reachable cfg (snd (register_verify vr cfg d b))"
| login_options: "reachable cfg d \<Longrightarrow> reachable cfg (snd (login_options ga cfg d u))"
| login_verify: "reachable cfg d \<Longrightarrow> reachable cfg (snd (login_verify va cfg d b))"

subsection \<open>An invariant of the reachable states\<close>

text \<open>
  A pending registration challenge belongs to a user of the store, and a pending
  authentication challenge to a user with at least one passkey.
\<close>

definition db_inv :: "db \<Rightarrow> bool" where
  "db_inv d \<longleftrightarrow>
     (\<forall>u. regOptions d u \<noteq> None \<longrightarrow> users d u \<noteq> None) \<and>
     (\<forall>u. authOptions d u \<noteq> None \<longrightarrow> (\<exists>usr. users d u = Some usr \<and> passkeys usr \<noteq> []))"

subsection \<open>What a client can observe of the store\<close>

text \<open>
  The counter stored for the passkey that a client credential selects, and the credential
  ids of a user in the order of registration.
\<close>

definition stored_counter :: "db \<Rightarrow> string \<Rightarrow> client_credential \<Rightarrow> nat option" where
  "stored_counter d name cred =
     (case users d name of
        None \<Rightarrow> None
      | Some user \<Rightarrow> map_option counter (find_passkey cred (passkeys user)))"

definition user_ids :: "db \<Rightarrow> string \<Rightarrow> string list" where
  "user_ids d name = (case users d name of None \<Rightarrow> [] | Some user \<Rightarrow> map pk_id (passkeys user))"

subsection \<open>Concrete scenarios\<close>

text \<open>
  Generators and verifiers with a fixed answer, and the tables after alice has begun a
  registration (\<open>db_pending\<close>), finished it with a passkey \<open>k1\<close> of counter \<open>n\<close>
  (\<open>db_registered\<close>) and begun an authentication (\<open>db_login\<close>). In \<open>db_reissued\<close> and
  \<open>db_login_reissued\<close> she has begun the ceremony a second time; in \<open>db_again\<close> she begins
  a second registration after the first, and \<open>db_twice\<close> is the outcome when the verifier
  returns the id \<open>k1\<close> again. In \<open>db_same_challenge\<close> the second begin was answered by
  a generator that returned the challenge of the first again. \<open>attested_for\<close> and
  \<open>asserted_for\<close> are verifiers that accept one expected challenge only.
\<close>

definition cfg0 :: config where
  "cfg0 = \<lparr>rpID = ''localhost'', ORIGINS = [''http://localhost:3000'', ''http://localhost:5173'']\<rparr>"

definition gen_reg :: "string \<Rightarrow> generateRegistrationOptions" where
  "gen_reg ch args = Inr \<lparr>challenge = ch, opt_json = []\<rparr>"

definition gen_auth :: "string \<Rightarrow> generateAuthenticationOptions" where
  "gen_auth ch args = Inr \<lparr>challenge = ch, opt_json = []\<rparr>"

definition cred_k1 :: client_credential where
  "cred_k1 = \<lparr>cc_id = Some ''k1'', cc_json = []\<rparr>"

definition alice_finish :: verify_body where
  "alice_finish = \<lparr>body_username = Some ''alice'', body_credential = Some cred_k1\<rparr>"

definition attested :: "string \<Rightarrow> nat \<Rightarrow> verifyRegistrationResponse" where
  "attested i n args =
     Inr \<lparr>vr_verified = True,
          registrationInfo = Some \<lparr>ri_credential = \<lparr>wc_id = i, wc_publicKey = [], wc_counter = n,
                                                  wc_transports = None\<rparr>,
                                   credentialDeviceType = SingleDevice,
                                   credentialBackedUp = False\<rparr>\<rparr>"

definition asserted :: "nat \<Rightarrow> verifyAuthenticationResponse" where
  "asserted n args = Inr \<lparr>va_verified = True, authenticationInfo = Some \<lparr>newCounter = n\<rparr>\<rparr>"

definition reg_throws :: "string \<Rightarrow> verifyRegistrationResponse" where
  "reg_throws msg args = Inl msg"

definition auth_throws :: "string \<Rightarrow> verifyAuthenticationResponse" where
  "auth_throws msg args = Inl msg"

definition db_pending :: db where
  "db_pending = snd (register_options (gen_reg ''c1'') cfg0 db0 (Some ''alice''))"

definition db_registered :: "nat \<Rightarrow> db" where
  "db_registered n = snd (register_verify (attested ''k1'' n) cfg0 db_pending alice_finish)"

definition db_login :: "nat \<Rightarrow> db" where
  "db_login n = snd (login_options (gen_auth ''c2'') cfg0 (db_registered n) (Some ''alice''))"

definition key1 :: "nat \<Rightarrow> passkey" where
  "key1 n = \<lparr>pk_id = ''k1'', publicKey = [], counter = n, transports = None,
             deviceType = SingleDevice, backedUp = False\<rparr>"

definition alice_no_credential :: verify_body where
  "alice_no_credential = \<lparr>body_username = Some ''alice'', body_credential = None\<rparr>"

definition bob_finish :: verify_body where
  "bob_finish = \<lparr>body_username = Some ''bob'', body_credential = Some cred_k1\<rparr>"

definition db_again :: db where
  "db_again = snd (register_options (gen_reg ''c3'') cfg0 (db_registered 0) (Some ''alice''))"

definition db_twice :: db where
  "db_twice = snd (register_verify (attested ''k1'' 0) cfg0 db_again alice_finish)"



definition db_reissued :: db where
  "db_reissued = snd (register_options (gen_reg ''c3'') cfg0 db_pending (Some ''alice''))"

definition db_login_reissued :: db where
  "db_login_reissued = snd (login_options (gen_auth ''c4'') cfg0 (db_login 5) (Some ''alice''))"


section \<open>Auxiliary facts\<close>

lemma set_counter_length: "length (set_counter c n pks) = length pks"
  by (induction pks) auto

lemma set_counter_Nil: "set_counter c n pks = [] \<longleftrightarrow> pks = []"
  by (cases pks) auto

lemma set_counter_ids: "map pk_id (set_counter c n pks) = map pk_id pks"
  by (induction pks) auto

lemma db_inv_db0: "db_inv db0"
  by (simp add: db_inv_def db0_def)

lemma db_inv_register_options: "db_inv d \<Longrightarrow> db_inv (snd (register_options g cfg d u))"
  by (auto simp: db_inv_def register_options_def getOrCreateUser_def Let_def
      split: option.splits sum.splits if_splits)

lemma db_inv_register_verify: "db_inv d \<Longrightarrow> db_inv (snd (register_verify v cfg d b))"
  by (auto simp: db_inv_def register_verify_def register_try_def push_passkey_def Let_def
      split: option.splits sum.splits if_splits prod.splits)

lemma db_inv_login_options: "db_inv d \<Longrightarrow> db_inv (snd (login_options g cfg d u))"
  by (auto simp: db_inv_def login_options_def Let_def
      split: option.splits sum.splits if_splits)

lemma db_inv_login_verify: "db_inv d \<Longrightarrow> db_inv (snd (login_verify v cfg d b))"
  by (auto simp: db_inv_def login_verify_def login_try_def Let_def set_counter_Nil
      split: option.splits sum.splits if_splits prod.splits)

lemma reachable_db_inv: "reachable cfg d \<Longrightarrow> db_inv d"
  by (induction rule: reachable.induct)
     (simp_all add: db_inv_db0 db_inv_register_options db_inv_register_verify
        db_inv_login_options db_inv_login_verify)


lemma db_pending_eq:
  "db_pending = \<lparr>users = [''alice'' \<mapsto> \<lparr>username = ''alice'', passkeys = []\<rparr>],
                 regOptions = [''alice'' \<mapsto> \<lparr>challenge = ''c1'', opt_json = []\<rparr>],
                 authOptions = Map.empty\<rparr>"
  by (simp add: db_pending_def register_options_def getOrCreateUser_def db0_def gen_reg_def Let_def)

lemma db_registered_eq:
  "db_registered n = \<lparr>users = [''alice'' \<mapsto> \<lparr>username = ''alice'', passkeys = [key1 n]\<rparr>],
                 regOptions = Map.empty,
                 authOptions = Map.empty\<rparr>"
  by (simp add: db_registered_def db_pending_eq register_verify_def register_try_def
      push_passkey_def newPasskey_def attested_def alice_finish_def key1_def)

lemma db_login_eq:
  "db_login n = \<lparr>users = [''alice'' \<mapsto> \<lparr>username = ''alice'', passkeys = [key1 n]\<rparr>],
                 regOptions = Map.empty,
                 authOptions = [''alice'' \<mapsto> \<lparr>challenge = ''c2'', opt_json = []\<rparr>]\<rparr>"
  by (simp add: db_login_def db_registered_eq login_options_def gen_auth_def)

lemma reachable_db_pending: "reachable cfg0 db_pending"
  unfolding db_pending_def by (rule reachable.register_options [OF reachable.start])

lemma reachable_db_registered: "reachable cfg0 (db_registered n)"
  unfolding db_registered_def by (rule reachable.register_verify [OF reachable_db_pending])

lemma reachable_db_login: "reachable cfg0 (db_login n)"
  unfolding db_login_def by (rule reachable.login_options [OF reachable_db_registered])

lemma register_verify_regOptions:
  "regOptions (snd (register_verify v cfg d b)) =
     (case (body_username b, body_credential b) of
        (Some name, Some cred) \<Rightarrow>
           if name \<noteq> [] \<and> users d name \<noteq> None then (regOptions d)(name := None) else regOptions d
      | _ \<Rightarrow> regOptions d)"
  by (auto simp: register_verify_def register_try_def push_passkey_def Let_def
      split: option.splits sum.splits prod.splits)

lemma login_verify_authOptions:
  "authOptions (snd (login_verify v cfg d b)) =
     (case (body_username b, body_credential b) of
        (Some name, Some cred) \<Rightarrow>
           if name \<noteq> [] \<and> users d name \<noteq> None then (authOptions d)(name := None) else authOptions d
      | _ \<Rightarrow> authOptions d)"
  by (auto simp: login_verify_def login_try_def Let_def
      split: option.splits sum.splits prod.splits)

lemma register_verify_users_dom:
  "users (snd (register_verify v cfg d b)) name = None \<longleftrightarrow> users d name = None"
  by (auto simp: register_verify_def register_try_def push_passkey_def Let_def
      split: option.splits sum.splits prod.splits if_splits)

lemma login_verify_users_dom:
  "users (snd (login_verify v cfg d b)) name = None \<longleftrightarrow> users d name = None"
  by (auto simp: login_verify_def login_try_def Let_def
      split: option.splits sum.splits prod.splits if_splits)

lemma register_verify_no_options:
  "body_username b = Some name \<Longrightarrow> name \<noteq> [] \<Longrightarrow> body_credential b = Some cred \<Longrightarrow>
   users d name = Some user \<Longrightarrow> regOptions d name = None \<Longrightarrow>
   register_verify v cfg d b = (Status400 ''No hay options de registro activas'', d)"
  by (simp add: register_verify_def)

lemma login_verify_no_options:
  "body_username b = Some name \<Longrightarrow> name \<noteq> [] \<Longrightarrow> body_credential b = Some cred \<Longrightarrow>
   users d name = Some user \<Longrightarrow> authOptions d name = None \<Longrightarrow>
   login_verify v cfg d b = (Status400 ''No hay options de login activas'', d)"
  by (simp add: login_verify_def)

lemma register_verify_success:
  assumes "body_username b = Some name" "name \<noteq> []" "body_credential b = Some cred"
    "users d name = Some user" "regOptions d name = Some opts"
    "vr (registration_verify_args cfg cred opts) = Inr ver"
    "vr_verified ver" "registrationInfo ver = Some info"
  shows "register_verify vr cfg d b =
     (Json_verified True,
      d\<lparr>users := (users d)(name \<mapsto> user\<lparr>passkeys := passkeys user @ [newPasskey info]\<rparr>),
        regOptions := (regOptions d)(name := None)\<rparr>)"
  using assms by (simp add: register_verify_def register_try_def push_passkey_def)

lemma register_verify_users_cases:
  "users (snd (register_verify vr cfg d b)) = users d
   \<or> (\<exists>name cred user opts ver info.
         body_username b = Some name \<and> name \<noteq> [] \<and> body_credential b = Some cred
       \<and> users d name = Some user \<and> regOptions d name = Some opts
       \<and> vr (registration_verify_args cfg cred opts) = Inr ver
       \<and> vr_verified ver \<and> registrationInfo ver = Some info)"
  by (auto simp: register_verify_def register_try_def push_passkey_def Let_def
      split: option.splits sum.splits prod.splits)

lemma set_counter_first:
  "i < length pks \<Longrightarrow> Some (pk_id (pks ! i)) = cc_id cred \<Longrightarrow>
   \<forall>j<i. Some (pk_id (pks ! j)) \<noteq> cc_id cred \<Longrightarrow>
   set_counter cred n pks = pks[i := (pks ! i)\<lparr>counter := n\<rparr>]"
proof (induction pks arbitrary: i)
  case Nil
  then show ?case by simp
next
  case (Cons pk pks)
  show ?case
  proof (cases i)
    case 0
    with Cons.prems show ?thesis by simp
  next
    case (Suc k)
    with Cons.prems have head: "Some (pk_id pk) \<noteq> cc_id cred" by auto
    from Suc Cons.prems have "set_counter cred n pks = pks[k := (pks ! k)\<lparr>counter := n\<rparr>]"
      by (intro Cons.IH) auto
    with head Suc show ?thesis by simp
  qed
qed

lemma find_passkey_index:
  "find_passkey cred pks = Some pk \<Longrightarrow>
   \<exists>i<length pks. pks ! i = pk \<and> Some (pk_id pk) = cc_id cred
      \<and> (\<forall>j<i. Some (pk_id (pks ! j)) \<noteq> cc_id cred)
      \<and> set_counter cred n pks = pks[i := pk\<lparr>counter := n\<rparr>]"
  unfolding find_passkey_def find_Some_iff
  using set_counter_first [of _ pks cred n] by auto

lemma find_passkey_set_counter:
  "find_passkey cred (set_counter cred n pks)
     = map_option (\<lambda>pk. pk\<lparr>counter := n\<rparr>) (find_passkey cred pks)"
  by (induction pks) (auto simp: find_passkey_def)

lemma login_verify_success:
  assumes "body_username b = Some name" "name \<noteq> []" "body_credential b = Some cred"
    "users d name = Some user" "authOptions d name = Some opts"
    "find_passkey cred (passkeys user) = Some pk"
    "va (authentication_verify_args cfg cred opts pk) = Inr ver"
    "va_verified ver" "authenticationInfo ver = Some info"
  shows "login_verify va cfg d b =
     (Json_verified True,
      d\<lparr>users := (users d)(name \<mapsto>
            user\<lparr>passkeys := set_counter cred (newCounter info) (passkeys user)\<rparr>),
        authOptions := (authOptions d)(name := None)\<rparr>)"
  using assms by (simp add: login_verify_def login_try_def)

lemma login_verify_failure:
  assumes "body_username b = Some name" "name \<noteq> []" "body_credential b = Some cred"
    "users d name = Some user" "authOptions d name = Some opts"
    "find_passkey cred (passkeys user) = Some pk"
  shows "va (authentication_verify_args cfg cred opts pk) = Inl msg \<Longrightarrow>
           login_verify va cfg d b
             = (Status400 msg, d\<lparr>authOptions := (authOptions d)(name := None)\<rparr>)"
    and "va (authentication_verify_args cfg cred opts pk) = Inr ver \<Longrightarrow> \<not> va_verified ver \<Longrightarrow>
           login_verify va cfg d b
             = (Json_verified False, d\<lparr>authOptions := (authOptions d)(name := None)\<rparr>)"
  using assms by (simp_all add: login_verify_def login_try_def split: option.splits)

lemma db_again_eq:
  "db_again = \<lparr>users = [''alice'' \<mapsto> \<lparr>username = ''alice'', passkeys = [key1 0]\<rparr>],
                 regOptions = [''alice'' \<mapsto> \<lparr>challenge = ''c3'', opt_json = []\<rparr>],
                 authOptions = Map.empty\<rparr>"
  by (simp add: db_again_def db_registered_eq register_options_def getOrCreateUser_def gen_reg_def
      Let_def)

lemma db_twice_eq:
  "db_twice = \<lparr>users = [''alice'' \<mapsto> \<lparr>username = ''alice'', passkeys = [key1 0, key1 0]\<rparr>],
                 regOptions = Map.empty,
                 authOptions = Map.empty\<rparr>"
  by (simp add: db_twice_def db_again_eq register_verify_def register_try_def
      push_passkey_def newPasskey_def attested_def alice_finish_def key1_def)

lemma user_ids_register_options: "user_ids (snd (register_options gr cfg d u)) name = user_ids d name"
  by (auto simp: user_ids_def register_options_def getOrCreateUser_def Let_def
      split: option.splits sum.splits)

lemma user_ids_login_options: "user_ids (snd (login_options ga cfg d u)) name = user_ids d name"
  by (auto simp: user_ids_def login_options_def split: option.splits sum.splits)

lemma user_ids_login_verify: "user_ids (snd (login_verify va cfg d b)) name = user_ids d name"
  by (auto simp: user_ids_def login_verify_def login_try_def Let_def set_counter_ids
      split: option.splits sum.splits prod.splits)

lemma user_ids_register_verify:
  "user_ids (snd (register_verify vr cfg d b)) name = user_ids d name
   \<or> (\<exists>cred user opts ver info.
         body_username b = Some name \<and> name \<noteq> [] \<and> body_credential b = Some cred
       \<and> users d name = Some user \<and> regOptions d name = Some opts
       \<and> vr (registration_verify_args cfg cred opts) = Inr ver
       \<and> vr_verified ver \<and> registrationInfo ver = Some info
       \<and> user_ids (snd (register_verify vr cfg d b)) name
            = user_ids d name @ [wc_id (ri_credential info)])"
  by (auto simp: user_ids_def register_verify_def register_try_def push_passkey_def newPasskey_def
      Let_def split: option.splits sum.splits prod.splits)


lemma login_options_issued:
  assumes "fst (login_options g cfg d (Some name)) = Json_options opts"
  shows "name \<noteq> []" and "authOptions (snd (login_options g cfg d (Some name))) name = Some opts"
    and "users (snd (login_options g cfg d (Some name))) = users d"
  using assms
  by (auto simp: login_options_def split: option.splits sum.splits if_splits)



lemma db_reissued_eq:
  "db_reissued = \<lparr>users = [''alice'' \<mapsto> \<lparr>username = ''alice'', passkeys = []\<rparr>],
                 regOptions = [''alice'' \<mapsto> \<lparr>challenge = ''c3'', opt_json = []\<rparr>],
                 authOptions = Map.empty\<rparr>"
  by (simp add: db_reissued_def db_pending_eq register_options_def getOrCreateUser_def gen_reg_def
      Let_def)

lemma db_login_reissued_eq:
  "db_login_reissued = \<lparr>users = [''alice'' \<mapsto> \<lparr>username = ''alice'', passkeys = [key1 5]\<rparr>],
                 regOptions = Map.empty,
                 authOptions = [''alice'' \<mapsto> \<lparr>challenge = ''c4'', opt_json = []\<rparr>]\<rparr>"
  by (simp add: db_login_reissued_def db_login_eq login_options_def gen_auth_def)




section \<open>The claims\<close>

subsection \<open>getOrCreateUser\<close>

text \<open>
  C9. \<^verbatim>\<open>getOrCreateUser\<close> is total. Called on a username that is not in the store it
  stores and returns a user with no passkeys; called on a username that is in the store it
  returns the stored user and leaves the tables as they are. A second call returns what the
  first returned and changes nothing; no other user and no cache entry is touched.
\<close>

theorem getOrCreateUser_idempotent:
  "getOrCreateUser (snd (getOrCreateUser d name)) name = getOrCreateUser d name
   \<and> users (snd (getOrCreateUser d name)) name = Some (fst (getOrCreateUser d name))
   \<and> (users d name = None \<longrightarrow>
        fst (getOrCreateUser d name) = \<lparr>username = name, passkeys = []\<rparr>)
   \<and> (\<forall>user. users d name = Some user \<longrightarrow> getOrCreateUser d name = (user, d))
   \<and> (\<forall>other. other \<noteq> name \<longrightarrow> users (snd (getOrCreateUser d name)) other = users d other)
   \<and> regOptions (snd (getOrCreateUser d name)) = regOptions d
   \<and> authOptions (snd (getOrCreateUser d name)) = authOptions d"
  by (simp add: getOrCreateUser_def Let_def split: option.splits)

theorem getOrCreateUser_idempotent_witness:
  "users db0 ''alice'' = None
   \<and> fst (getOrCreateUser db0 ''alice'') = \<lparr>username = ''alice'', passkeys = []\<rparr>
   \<and> users (db_registered 5) ''alice'' = Some \<lparr>username = ''alice'', passkeys = [key1 5]\<rparr>
   \<and> getOrCreateUser (db_registered 5) ''alice''
       = (\<lparr>username = ''alice'', passkeys = [key1 5]\<rparr>, db_registered 5)
   \<and> users (snd (getOrCreateUser db0 ''alice'')) ''bob'' = users db0 ''bob''"
  using getOrCreateUser_idempotent [of db0 "''alice''"]
    getOrCreateUser_idempotent [of "db_registered 5" "''alice''"]
  by (simp add: db0_def db_registered_eq)


subsection \<open>Eviction of the pending challenge\<close>

text \<open>
  C1, as amended. A finish call (\<^verbatim>\<open>/register/verify\<close>, \<^verbatim>\<open>/login/verify\<close>) whose body has a
  non-empty username and a credential leaves no pending challenge of its kind for that
  username, whatever the verifier does (returns verified, returns unverified, throws); and
  when the user exists, a second finish call for that username right after it, again with
  a credential, is answered 400 \<^verbatim>\<open>No hay options de ... activas\<close> and changes nothing.
\<close>

theorem finish_evicts_pending_challenge:
  assumes "reachable cfg d"
    and "body_username b = Some name" and "name \<noteq> []" and "body_credential b = Some cred"
  shows "regOptions (snd (register_verify vr cfg d b)) name = None
       \<and> authOptions (snd (login_verify va cfg d b)) name = None
       \<and> (\<forall>b'. users d name \<noteq> None \<and> body_username b' = Some name \<and> body_credential b' \<noteq> None \<longrightarrow>
            register_verify vr' cfg (snd (register_verify vr cfg d b)) b'
              = (Status400 ''No hay options de registro activas'', snd (register_verify vr cfg d b))
          \<and> login_verify va' cfg (snd (login_verify va cfg d b)) b'
              = (Status400 ''No hay options de login activas'', snd (login_verify va cfg d b)))"
proof -
  from assms(1) have inv: "db_inv d" by (rule reachable_db_inv)
  have reg: "regOptions (snd (register_verify vr cfg d b)) name = None"
    using inv assms(2-4) by (auto simp: register_verify_regOptions db_inv_def)
  have auth: "authOptions (snd (login_verify va cfg d b)) name = None"
    using inv assms(2-4) by (auto simp: login_verify_authOptions db_inv_def)
  have again: "register_verify vr' cfg (snd (register_verify vr cfg d b)) b'
              = (Status400 ''No hay options de registro activas'', snd (register_verify vr cfg d b))"
    if "users d name \<noteq> None" "body_username b' = Some name" "body_credential b' \<noteq> None" for b'
  proof -
    from that(1) obtain user where "users (snd (register_verify vr cfg d b)) name = Some user"
      using register_verify_users_dom [of vr cfg d b name] by auto
    moreover from that(3) obtain cred' where "body_credential b' = Some cred'" by auto
    ultimately show ?thesis
      using that(2) assms(3) reg by (simp add: register_verify_no_options)
  qed
  have again': "login_verify va' cfg (snd (login_verify va cfg d b)) b'
              = (Status400 ''No hay options de login activas'', snd (login_verify va cfg d b))"
    if "users d name \<noteq> None" "body_username b' = Some name" "body_credential b' \<noteq> None" for b'
  proof -
    from that(1) obtain user where "users (snd (login_verify va cfg d b)) name = Some user"
      using login_verify_users_dom [of va cfg d b name] by auto
    moreover from that(3) obtain cred' where "body_credential b' = Some cred'" by auto
    ultimately show ?thesis
      using that(2) assms(3) auth by (simp add: login_verify_no_options)
  qed
  from reg auth again again' show ?thesis by blast
qed

theorem finish_evicts_pending_challenge_witness:
  "regOptions db_pending ''alice'' = Some \<lparr>challenge = ''c1'', opt_json = []\<rparr>
   \<and> regOptions (snd (register_verify (reg_throws ''bad'') cfg0 db_pending alice_finish)) ''alice'' = None
   \<and> authOptions (db_login 5) ''alice'' = Some \<lparr>challenge = ''c2'', opt_json = []\<rparr>
   \<and> authOptions (snd (login_verify (asserted 6) cfg0 (db_login 5) alice_finish)) ''alice'' = None
   \<and> fst (login_verify (asserted 7) cfg0 (snd (login_verify (asserted 6) cfg0 (db_login 5) alice_finish))
        alice_finish) = Status400 ''No hay options de login activas''"
  using finish_evicts_pending_challenge [OF reachable_db_pending, of alice_finish "''alice''" cred_k1
      "reg_throws ''bad''" "asserted 6" "reg_throws ''bad''" "asserted 7"]
    finish_evicts_pending_challenge [OF reachable_db_login [of 5], of alice_finish "''alice''" cred_k1
      "reg_throws ''bad''" "asserted 6" "reg_throws ''bad''" "asserted 7"]
  by (simp add: alice_finish_def db_pending_eq db_login_eq)

text \<open>
  C1, as stated, fails: a finish call without a credential is answered 400
  \<^verbatim>\<open>Faltan datos\<close> before the \<^verbatim>\<open>try\<close> is entered, so the \<^verbatim>\<open>finally\<close> does not run and the
  pending challenge of alice stays in the cache.
\<close>

theorem finish_missing_credential_keeps_challenge:
  "reachable cfg0 db_pending
   \<and> register_verify (reg_throws ''bad'') cfg0 db_pending alice_no_credential
       = (Status400 ''Faltan datos'', db_pending)
   \<and> regOptions db_pending ''alice'' = Some \<lparr>challenge = ''c1'', opt_json = []\<rparr>
   \<and> reachable cfg0 (db_login 5)
   \<and> login_verify (asserted 6) cfg0 (db_login 5) alice_no_credential
       = (Status400 ''Faltan datos'', db_login 5)
   \<and> authOptions (db_login 5) ''alice'' = Some \<lparr>challenge = ''c2'', opt_json = []\<rparr>"
proof -
  have "register_verify (reg_throws ''bad'') cfg0 db_pending alice_no_credential
       = (Status400 ''Faltan datos'', db_pending)"
    by (simp add: register_verify_def alice_no_credential_def)
  moreover have "login_verify (asserted 6) cfg0 (db_login 5) alice_no_credential
       = (Status400 ''Faltan datos'', db_login 5)"
    by (simp add: login_verify_def alice_no_credential_def)
  moreover have "regOptions db_pending ''alice'' = Some \<lparr>challenge = ''c1'', opt_json = []\<rparr>"
    by (simp add: db_pending_eq)
  moreover have "authOptions (db_login 5) ''alice'' = Some \<lparr>challenge = ''c2'', opt_json = []\<rparr>"
    by (simp add: db_login_eq)
  ultimately show ?thesis
    using reachable_db_pending reachable_db_login [of 5] by simp
qed

subsection \<open>A finish call with no pending challenge\<close>

text \<open>
  C4, as amended. A finish call for a username that has no pending challenge of that kind
  is answered with a 400 error and leaves the users and both caches as they were. The
  error is \<^verbatim>\<open>Faltan datos\<close> when the username is empty or the credential is missing,
  \<^verbatim>\<open>Usuario no existe\<close> when the store has no such user, and
  \<^verbatim>\<open>No hay options de ... activas\<close> otherwise.
\<close>

theorem finish_without_pending_challenge:
  "(body_username b = Some name \<and> regOptions d name = None \<longrightarrow>
      snd (register_verify vr cfg d b) = d
      \<and> fst (register_verify vr cfg d b) =
          (if name = [] \<or> body_credential b = None then Status400 ''Faltan datos''
           else if users d name = None then Status400 ''Usuario no existe''
           else Status400 ''No hay options de registro activas''))
   \<and> (body_username b = Some name \<and> authOptions d name = None \<longrightarrow>
      snd (login_verify va cfg d b) = d
      \<and> fst (login_verify va cfg d b) =
          (if name = [] \<or> body_credential b = None then Status400 ''Faltan datos''
           else if users d name = None then Status400 ''Usuario no existe''
           else Status400 ''No hay options de login activas''))"
  by (auto simp: register_verify_def login_verify_def split: option.splits)

theorem finish_without_pending_challenge_witness:
  "regOptions (db_registered 5) ''alice'' = None
   \<and> register_verify (attested ''k2'' 0) cfg0 (db_registered 5) alice_finish
       = (Status400 ''No hay options de registro activas'', db_registered 5)
   \<and> authOptions (db_registered 5) ''alice'' = None
   \<and> login_verify (asserted 6) cfg0 (db_registered 5) alice_finish
       = (Status400 ''No hay options de login activas'', db_registered 5)"
  using finish_without_pending_challenge [of alice_finish "''alice''" "db_registered 5"
      "attested ''k2'' 0" cfg0 "asserted 6"]
  by (simp add: alice_finish_def db_registered_eq prod_eq_iff)

text \<open>
  C4, as stated, fails: bob has never begun a ceremony, so the store has no user bob, and
  the handlers look the user up before the pending challenge. The answer is 400
  \<^verbatim>\<open>Usuario no existe\<close>, not the error of a missing challenge.
\<close>

theorem finish_unknown_user_counterexample:
  "regOptions db0 ''bob'' = None
   \<and> register_verify (attested ''k1'' 0) cfg0 db0 bob_finish = (Status400 ''Usuario no existe'', db0)
   \<and> Status400 ''Usuario no existe'' \<noteq> Status400 ''No hay options de registro activas''
   \<and> authOptions db0 ''bob'' = None
   \<and> login_verify (asserted 1) cfg0 db0 bob_finish = (Status400 ''Usuario no existe'', db0)
   \<and> Status400 ''Usuario no existe'' \<noteq> Status400 ''No hay options de login activas''"
  by (simp add: register_verify_def login_verify_def bob_finish_def db0_def)

subsection \<open>Beginning an authentication\<close>

text \<open>
  C7. In a reachable state, \<^verbatim>\<open>/login/options\<close> for a username that is not in the store,
  or whose user has no passkey, is answered with a 400 error (\<^verbatim>\<open>Usuario no existe\<close>,
  \<^verbatim>\<open>Usuario sin passkeys\<close>), changes nothing, and no authentication challenge is cached
  for that username afterwards.
\<close>

theorem login_options_requires_passkey:
  assumes "reachable cfg d"
    and "users d name = None \<or> (\<exists>user. users d name = Some user \<and> passkeys user = [])"
  shows "snd (login_options ga cfg d (Some name)) = d
       \<and> authOptions (snd (login_options ga cfg d (Some name))) name = None
       \<and> fst (login_options ga cfg d (Some name)) =
           (if name = [] then Status400 ''Falta username''
            else if users d name = None then Status400 ''Usuario no existe''
            else Status400 ''Usuario sin passkeys'')"
proof -
  have same: "snd (login_options ga cfg d (Some name)) = d"
    using assms(2) by (auto simp: login_options_def)
  from assms(1) have "db_inv d" by (rule reachable_db_inv)
  with assms(2) have "authOptions d name = None"
    by (auto simp: db_inv_def)
  moreover have "fst (login_options ga cfg d (Some name)) =
           (if name = [] then Status400 ''Falta username''
            else if users d name = None then Status400 ''Usuario no existe''
            else Status400 ''Usuario sin passkeys'')"
    using assms(2) by (auto simp: login_options_def)
  ultimately show ?thesis using same by simp
qed

theorem login_options_requires_passkey_witness:
  "login_options (gen_auth ''c2'') cfg0 db_pending (Some ''alice'')
     = (Status400 ''Usuario sin passkeys'', db_pending)
   \<and> authOptions db_pending ''alice'' = None
   \<and> login_options (gen_auth ''c2'') cfg0 db_pending (Some ''bob'')
     = (Status400 ''Usuario no existe'', db_pending)
   \<and> authOptions db_pending ''bob'' = None"
  using login_options_requires_passkey [OF reachable_db_pending, of "''alice''" "gen_auth ''c2''"]
    login_options_requires_passkey [OF reachable_db_pending, of "''bob''" "gen_auth ''c2''"]
  by (simp add: db_pending_eq prod_eq_iff)

subsection \<open>The two challenge caches\<close>

text \<open>
  C10. The registration handlers leave \<^verbatim>\<open>db.authOptions\<close> as it is and the login
  handlers leave \<^verbatim>\<open>db.regOptions\<close> as it is; and a handler called for one username
  leaves the entries of every other username in its own cache as they are.
\<close>

theorem challenge_caches_independent:
  "authOptions (snd (register_options gr cfg d u)) = authOptions d
   \<and> authOptions (snd (register_verify vr cfg d b)) = authOptions d
   \<and> regOptions (snd (login_options ga cfg d u)) = regOptions d
   \<and> regOptions (snd (login_verify va cfg d b)) = regOptions d
   \<and> (\<forall>other. u \<noteq> Some other \<longrightarrow>
         regOptions (snd (register_options gr cfg d u)) other = regOptions d other
       \<and> authOptions (snd (login_options ga cfg d u)) other = authOptions d other)
   \<and> (\<forall>other. body_username b \<noteq> Some other \<longrightarrow>
         regOptions (snd (register_verify vr cfg d b)) other = regOptions d other
       \<and> authOptions (snd (login_verify va cfg d b)) other = authOptions d other)"
proof -
  have "authOptions (snd (register_options gr cfg d u)) = authOptions d"
    by (simp add: register_options_def getOrCreateUser_def Let_def
        split: option.splits sum.splits)
  moreover have "authOptions (snd (register_verify vr cfg d b)) = authOptions d"
    by (simp add: register_verify_def register_try_def push_passkey_def Let_def
        split: option.splits sum.splits prod.splits)
  moreover have "regOptions (snd (login_options ga cfg d u)) = regOptions d"
    by (simp add: login_options_def split: option.splits sum.splits)
  moreover have "regOptions (snd (login_verify va cfg d b)) = regOptions d"
    by (simp add: login_verify_def login_try_def Let_def
        split: option.splits sum.splits prod.splits)
  moreover have "regOptions (snd (register_options gr cfg d u)) other = regOptions d other"
    if "u \<noteq> Some other" for other
    using that by (auto simp: register_options_def getOrCreateUser_def Let_def
        split: option.splits sum.splits)
  moreover have "authOptions (snd (login_options ga cfg d u)) other = authOptions d other"
    if "u \<noteq> Some other" for other
    using that by (auto simp: login_options_def split: option.splits sum.splits)
  moreover have "regOptions (snd (register_verify vr cfg d b)) other = regOptions d other"
    if "body_username b \<noteq> Some other" for other
    using that by (auto simp: register_verify_regOptions split: option.splits)
  moreover have "authOptions (snd (login_verify va cfg d b)) other = authOptions d other"
    if "body_username b \<noteq> Some other" for other
    using that by (auto simp: login_verify_authOptions split: option.splits)
  ultimately show ?thesis by blast
qed

theorem challenge_caches_independent_witness:
  "authOptions (snd (register_options (gen_reg ''c3'') cfg0 (db_login 5) (Some ''alice''))) ''alice''
     = Some \<lparr>challenge = ''c2'', opt_json = []\<rparr>
   \<and> authOptions (snd (login_options (gen_auth ''c4'') cfg0 (db_login 5) (Some ''bob''))) ''alice''
     = Some \<lparr>challenge = ''c2'', opt_json = []\<rparr>
   \<and> regOptions (snd (register_verify (reg_throws ''bad'') cfg0 db_pending bob_finish)) ''alice''
     = Some \<lparr>challenge = ''c1'', opt_json = []\<rparr>"
  using challenge_caches_independent [of "gen_reg ''c3''" cfg0 "db_login 5" "Some ''alice''"
      "reg_throws ''bad''" alice_finish "gen_auth ''c4''" "asserted 6"]
    challenge_caches_independent [of "gen_reg ''c3''" cfg0 "db_login 5" "Some ''bob''"
      "reg_throws ''bad''" alice_finish "gen_auth ''c4''" "asserted 6"]
    challenge_caches_independent [of "gen_reg ''c3''" cfg0 db_pending "Some ''bob''"
      "reg_throws ''bad''" bob_finish "gen_auth ''c4''" "asserted 6"]
  by (simp add: db_login_eq db_pending_eq bob_finish_def)

subsection \<open>Finishing a registration\<close>

text \<open>
  C3. For a \<^verbatim>\<open>/register/verify\<close> call with both fields, an existing user and a pending
  registration challenge: when the verifier returns verified with a \<^verbatim>\<open>registrationInfo\<close>,
  the answer is \<^verbatim>\<open>{verified: true}\<close> and the store is the old one with exactly one passkey,
  built field by field from the \<^verbatim>\<open>registrationInfo\<close>, appended to that user's passkeys;
  when it returns unverified the answer is \<^verbatim>\<open>{verified: false}\<close>, when it throws the answer
  is 400 with the error's message, and in both cases the store is unchanged. No call of the
  handler changes the store in any other case.
\<close>

theorem registration_finish_appends_one:
  "(body_username b = Some name \<and> name \<noteq> [] \<and> body_credential b = Some cred
      \<and> users d name = Some user \<and> regOptions d name = Some opts \<longrightarrow>
      (\<forall>ver info. vr (registration_verify_args cfg cred opts) = Inr ver
           \<and> vr_verified ver \<and> registrationInfo ver = Some info \<longrightarrow>
           fst (register_verify vr cfg d b) = Json_verified True
         \<and> users (snd (register_verify vr cfg d b))
             = (users d)(name \<mapsto> user\<lparr>passkeys := passkeys user @ [newPasskey info]\<rparr>)
         \<and> newPasskey info =
             \<lparr>pk_id = wc_id (ri_credential info), publicKey = wc_publicKey (ri_credential info),
              counter = wc_counter (ri_credential info),
              transports = wc_transports (ri_credential info),
              deviceType = credentialDeviceType info, backedUp = credentialBackedUp info\<rparr>)
    \<and> (\<forall>ver. vr (registration_verify_args cfg cred opts) = Inr ver \<and> \<not> vr_verified ver \<longrightarrow>
           fst (register_verify vr cfg d b) = Json_verified False
         \<and> users (snd (register_verify vr cfg d b)) = users d)
    \<and> (\<forall>msg. vr (registration_verify_args cfg cred opts) = Inl msg \<longrightarrow>
           fst (register_verify vr cfg d b) = Status400 msg
         \<and> users (snd (register_verify vr cfg d b)) = users d))
   \<and> (users (snd (register_verify vr cfg d b)) = users d
      \<or> (\<exists>name cred user opts ver info.
            body_username b = Some name \<and> name \<noteq> [] \<and> body_credential b = Some cred
          \<and> users d name = Some user \<and> regOptions d name = Some opts
          \<and> vr (registration_verify_args cfg cred opts) = Inr ver
          \<and> vr_verified ver \<and> registrationInfo ver = Some info))"
proof -
  have ok: "fst (register_verify vr cfg d b) = Json_verified True
         \<and> users (snd (register_verify vr cfg d b))
             = (users d)(name \<mapsto> user\<lparr>passkeys := passkeys user @ [newPasskey info]\<rparr>)"
    if "body_username b = Some name" "name \<noteq> []" "body_credential b = Some cred"
      "users d name = Some user" "regOptions d name = Some opts"
      "vr (registration_verify_args cfg cred opts) = Inr ver"
      "vr_verified ver" "registrationInfo ver = Some info" for ver info
    using that by (simp add: register_verify_success [where vr = vr and cfg = cfg])
  have no: "fst (register_verify vr cfg d b) = Json_verified False
         \<and> users (snd (register_verify vr cfg d b)) = users d"
    if "body_username b = Some name" "name \<noteq> []" "body_credential b = Some cred"
      "users d name = Some user" "regOptions d name = Some opts"
      "vr (registration_verify_args cfg cred opts) = Inr ver" "\<not> vr_verified ver" for ver
    using that by (simp add: register_verify_def register_try_def split: option.splits)
  have thrown: "fst (register_verify vr cfg d b) = Status400 msg
         \<and> users (snd (register_verify vr cfg d b)) = users d"
    if "body_username b = Some name" "name \<noteq> []" "body_credential b = Some cred"
      "users d name = Some user" "regOptions d name = Some opts"
      "vr (registration_verify_args cfg cred opts) = Inl msg" for msg
    using that by (simp add: register_verify_def register_try_def)
  have built: "newPasskey info =
             \<lparr>pk_id = wc_id (ri_credential info), publicKey = wc_publicKey (ri_credential info),
              counter = wc_counter (ri_credential info),
              transports = wc_transports (ri_credential info),
              deviceType = credentialDeviceType info, backedUp = credentialBackedUp info\<rparr>" for info
    by (simp add: newPasskey_def)
  from ok no thrown built register_verify_users_cases [of vr cfg d b] show ?thesis
    by blast
qed

theorem registration_finish_appends_one_witness:
  "users (snd (register_verify (attested ''k1'' 5) cfg0 db_pending alice_finish))
     = [''alice'' \<mapsto> \<lparr>username = ''alice'', passkeys = [key1 5]\<rparr>]
   \<and> register_verify (reg_throws ''bad origin'') cfg0 db_pending alice_finish
     = (Status400 ''bad origin'', db_pending\<lparr>regOptions := Map.empty\<rparr>)"
  using registration_finish_appends_one [of alice_finish "''alice''" cred_k1 db_pending
      "\<lparr>username = ''alice'', passkeys = []\<rparr>" "\<lparr>challenge = ''c1'', opt_json = []\<rparr>"
      "attested ''k1'' 5" cfg0]
    registration_finish_appends_one [of alice_finish "''alice''" cred_k1 db_pending
      "\<lparr>username = ''alice'', passkeys = []\<rparr>" "\<lparr>challenge = ''c1'', opt_json = []\<rparr>"
      "reg_throws ''bad origin''" cfg0]
  by (simp add: alice_finish_def db_pending_eq attested_def reg_throws_def newPasskey_def key1_def
      register_verify_def register_try_def)

subsection \<open>Finishing an authentication\<close>

text \<open>
  C6. A \<^verbatim>\<open>/login/verify\<close> call that the verifier reports verified, with an
  \<^verbatim>\<open>authenticationInfo\<close>, is answered \<^verbatim>\<open>{verified: true}\<close>; the record of every other
  user is unchanged, and the passkeys of the named user are the old list with the one
  element that \<^verbatim>\<open>find\<close> returned replaced by itself with \<^verbatim>\<open>counter\<close> set to
  \<^verbatim>\<open>newCounter\<close>: its id, public key, transports, device type and backed-up flag, and
  every other passkey of the list, stay as they were.
\<close>


theorem authentication_finish_frame:
  assumes "body_username b = Some name" and "name \<noteq> []" and "body_credential b = Some cred"
    and "users d name = Some user" and "authOptions d name = Some opts"
    and "find_passkey cred (passkeys user) = Some pk"
    and "va (authentication_verify_args cfg cred opts pk) = Inr ver"
    and "va_verified ver" and "authenticationInfo ver = Some info"
  shows "fst (login_verify va cfg d b) = Json_verified True
       \<and> (\<forall>other. other \<noteq> name \<longrightarrow> users (snd (login_verify va cfg d b)) other = users d other)
       \<and> (\<exists>i<length (passkeys user).
             passkeys user ! i = pk
           \<and> users (snd (login_verify va cfg d b)) name
               = Some (user\<lparr>passkeys := (passkeys user)[i := pk\<lparr>counter := newCounter info\<rparr>]\<rparr>))
       \<and> pk\<lparr>counter := newCounter info\<rparr>
            = \<lparr>pk_id = pk_id pk, publicKey = publicKey pk, counter = newCounter info,
               transports = transports pk, deviceType = deviceType pk, backedUp = backedUp pk\<rparr>"
proof -
  note run = login_verify_success [where va = va and cfg = cfg, OF assms]
  from find_passkey_index [OF assms(6), of "newCounter info"]
  obtain i where "i < length (passkeys user)" "passkeys user ! i = pk"
    "set_counter cred (newCounter info) (passkeys user)
       = (passkeys user)[i := pk\<lparr>counter := newCounter info\<rparr>]"
    by blast
  then have "\<exists>i<length (passkeys user).
             passkeys user ! i = pk
           \<and> users (snd (login_verify va cfg d b)) name
               = Some (user\<lparr>passkeys := (passkeys user)[i := pk\<lparr>counter := newCounter info\<rparr>]\<rparr>)"
    using run by auto
  moreover have "fst (login_verify va cfg d b) = Json_verified True"
    using run by simp
  moreover have "\<forall>other. other \<noteq> name \<longrightarrow> users (snd (login_verify va cfg d b)) other = users d other"
    using run by simp
  moreover have "pk\<lparr>counter := newCounter info\<rparr>
            = \<lparr>pk_id = pk_id pk, publicKey = publicKey pk, counter = newCounter info,
               transports = transports pk, deviceType = deviceType pk, backedUp = backedUp pk\<rparr>"
    by simp
  ultimately show ?thesis by blast
qed

theorem authentication_finish_frame_witness:
  "users (snd (login_verify (asserted 6) cfg0 (db_login 5) alice_finish))
     = [''alice'' \<mapsto> \<lparr>username = ''alice'', passkeys = [key1 6]\<rparr>]
   \<and> key1 6 = (key1 5)\<lparr>counter := 6\<rparr>"
  using authentication_finish_frame [of alice_finish "''alice''" cred_k1 "db_login 5"
      "\<lparr>username = ''alice'', passkeys = [key1 5]\<rparr>" "\<lparr>challenge = ''c2'', opt_json = []\<rparr>"
      "key1 5" "asserted 6" cfg0 "\<lparr>va_verified = True, authenticationInfo = Some \<lparr>newCounter = 6\<rparr>\<rparr>"
      "\<lparr>newCounter = 6\<rparr>"]
  by (simp add: alice_finish_def db_login_eq asserted_def key1_def cred_k1_def find_passkey_def
      login_verify_def login_try_def)

text \<open>
  C2, as amended. The handler compares no counters. It passes the stored counter of the
  matched passkey to the verifier; when the verifier throws, the answer is 400 with the
  error's message and the store is unchanged; when it returns unverified, the answer is
  \<^verbatim>\<open>{verified: false}\<close> and the store is unchanged; when it returns verified with an
  \<^verbatim>\<open>authenticationInfo\<close>, the answer is \<^verbatim>\<open>{verified: true}\<close> and the stored counter becomes
  \<^verbatim>\<open>newCounter\<close>. So if the verifier reports success only with a \<^verbatim>\<open>newCounter\<close> above the
  counter it was given, the stored counter never decreases.
\<close>


theorem authentication_finish_counter:
  assumes "body_username b = Some name" and "name \<noteq> []" and "body_credential b = Some cred"
    and "users d name = Some user" and "authOptions d name = Some opts"
    and "find_passkey cred (passkeys user) = Some pk"
  shows "stored_counter d name cred = Some (counter pk)
       \<and> wc_counter (va_credential (authentication_verify_args cfg cred opts pk)) = counter pk
       \<and> (\<forall>msg. va (authentication_verify_args cfg cred opts pk) = Inl msg \<longrightarrow>
             fst (login_verify va cfg d b) = Status400 msg
           \<and> users (snd (login_verify va cfg d b)) = users d)
       \<and> (\<forall>ver. va (authentication_verify_args cfg cred opts pk) = Inr ver \<and> \<not> va_verified ver \<longrightarrow>
             fst (login_verify va cfg d b) = Json_verified False
           \<and> users (snd (login_verify va cfg d b)) = users d)
       \<and> (\<forall>ver info. va (authentication_verify_args cfg cred opts pk) = Inr ver
             \<and> va_verified ver \<and> authenticationInfo ver = Some info \<longrightarrow>
             fst (login_verify va cfg d b) = Json_verified True
           \<and> stored_counter (snd (login_verify va cfg d b)) name cred = Some (newCounter info))
       \<and> ((\<forall>ver info. va (authentication_verify_args cfg cred opts pk) = Inr ver
             \<and> va_verified ver \<and> authenticationInfo ver = Some info \<longrightarrow>
             counter pk < newCounter info) \<longrightarrow>
           (\<exists>n. stored_counter (snd (login_verify va cfg d b)) name cred = Some n \<and> counter pk \<le> n))"
proof -
  let ?args = "authentication_verify_args cfg cred opts pk"
  let ?d' = "snd (login_verify va cfg d b)"
  have before: "stored_counter d name cred = Some (counter pk)"
    using assms(4,6) by (simp add: stored_counter_def)
  have arg: "wc_counter (va_credential ?args) = counter pk"
    by (simp add: authentication_verify_args_def)
  have thrown: "fst (login_verify va cfg d b) = Status400 msg \<and> users ?d' = users d"
    if "va ?args = Inl msg" for msg
    using login_verify_failure(1) [where va = va and cfg = cfg, OF assms that] by simp
  have unverified: "fst (login_verify va cfg d b) = Json_verified False \<and> users ?d' = users d"
    if "va ?args = Inr ver" "\<not> va_verified ver" for ver
    using login_verify_failure(2) [where va = va and cfg = cfg, OF assms that] by simp
  have verified: "fst (login_verify va cfg d b) = Json_verified True
      \<and> stored_counter ?d' name cred = Some (newCounter info)"
    if "va ?args = Inr ver" "va_verified ver" "authenticationInfo ver = Some info" for ver info
    using login_verify_success [where va = va and cfg = cfg, OF assms that] assms(6)
    by (simp add: stored_counter_def find_passkey_set_counter)
  have unchanged: "stored_counter ?d' name cred = Some (counter pk)" if "users ?d' = users d"
    using that before by (simp add: stored_counter_def)
  have mono: "\<exists>n. stored_counter ?d' name cred = Some n \<and> counter pk \<le> n"
    if strict: "\<forall>ver info. va ?args = Inr ver \<and> va_verified ver \<and> authenticationInfo ver = Some info
           \<longrightarrow> counter pk < newCounter info"
  proof (cases "va ?args")
    case (Inl msg)
    with thrown unchanged show ?thesis by simp
  next
    case (Inr ver)
    show ?thesis
    proof (cases "va_verified ver")
      case False
      with Inr unverified unchanged show ?thesis by simp
    next
      case True
      show ?thesis
      proof (cases "authenticationInfo ver")
        case None
        with Inr assms have "users ?d' = users d"
          by (simp add: login_verify_def login_try_def)
        with unchanged show ?thesis by simp
      next
        case (Some info)
        with Inr True verified strict show ?thesis by (auto intro: less_imp_le)
      qed
    qed
  qed
  from before arg thrown unverified verified mono show ?thesis by blast
qed

theorem authentication_finish_counter_witness:
  "stored_counter (db_login 5) ''alice'' cred_k1 = Some 5
   \<and> login_verify (asserted 6) cfg0 (db_login 5) alice_finish = (Json_verified True, db_registered 6)
   \<and> stored_counter (db_registered 6) ''alice'' cred_k1 = Some 6
   \<and> login_verify (auth_throws ''counter'') cfg0 (db_login 5) alice_finish
       = (Status400 ''counter'', db_registered 5)"
  using authentication_finish_counter [of alice_finish "''alice''" cred_k1 "db_login 5"
      "\<lparr>username = ''alice'', passkeys = [key1 5]\<rparr>" "\<lparr>challenge = ''c2'', opt_json = []\<rparr>"
      "key1 5" cfg0 "asserted 6"]
    authentication_finish_counter [of alice_finish "''alice''" cred_k1 "db_login 5"
      "\<lparr>username = ''alice'', passkeys = [key1 5]\<rparr>" "\<lparr>challenge = ''c2'', opt_json = []\<rparr>"
      "key1 5" cfg0 "auth_throws ''counter''"]
  by (simp add: alice_finish_def db_login_eq db_registered_eq asserted_def auth_throws_def key1_def
      cred_k1_def find_passkey_def login_verify_def login_try_def stored_counter_def)

text \<open>
  C2, as stated, fails: with a stored counter of 0 and a verifier that reports verified
  with \<^verbatim>\<open>newCounter\<close> 0, the call is not rejected; the answer is \<^verbatim>\<open>{verified: true}\<close>.
\<close>


theorem authentication_finish_equal_counter_accepted:
  "reachable cfg0 (db_login 0)
   \<and> stored_counter (db_login 0) ''alice'' cred_k1 = Some 0
   \<and> login_verify (asserted 0) cfg0 (db_login 0) alice_finish = (Json_verified True, db_registered 0)
   \<and> stored_counter (db_registered 0) ''alice'' cred_k1 = Some 0"
proof -
  have "login_verify (asserted 0) cfg0 (db_login 0) alice_finish
          = (Json_verified True, db_registered 0)"
    by (simp add: alice_finish_def db_login_eq db_registered_eq asserted_def key1_def
      cred_k1_def find_passkey_def login_verify_def login_try_def)
  moreover have "stored_counter (db_login 0) ''alice'' cred_k1 = Some 0"
    "stored_counter (db_registered 0) ''alice'' cred_k1 = Some 0"
    by (simp_all add: db_login_eq db_registered_eq key1_def cred_k1_def find_passkey_def
        stored_counter_def)
  ultimately show ?thesis using reachable_db_login [of 0] by simp
qed

subsection \<open>Credential ids of a user\<close>

text \<open>
  C8, as amended. \<^verbatim>\<open>/register/options\<close>, \<^verbatim>\<open>/login/options\<close> and \<^verbatim>\<open>/login/verify\<close> leave
  the sequence of credential ids of every user as it is. \<^verbatim>\<open>/register/verify\<close> either
  leaves it as it is or, on a verified registration of that user, appends the id the
  verifier returned, without comparing it with the ids already stored. Distinct ids stay
  distinct whenever the id a verified registration returns is not among the user's ids.
\<close>


theorem credential_ids_after_each_operation:
  "user_ids (snd (register_options gr cfg d u)) name = user_ids d name
   \<and> user_ids (snd (login_options ga cfg d u)) name = user_ids d name
   \<and> user_ids (snd (login_verify va cfg d b)) name = user_ids d name
   \<and> (user_ids (snd (register_verify vr cfg d b)) name = user_ids d name
      \<or> (\<exists>cred user opts ver info.
            body_username b = Some name \<and> name \<noteq> [] \<and> body_credential b = Some cred
          \<and> users d name = Some user \<and> regOptions d name = Some opts
          \<and> vr (registration_verify_args cfg cred opts) = Inr ver
          \<and> vr_verified ver \<and> registrationInfo ver = Some info
          \<and> user_ids (snd (register_verify vr cfg d b)) name
               = user_ids d name @ [wc_id (ri_credential info)]))
   \<and> (distinct (user_ids d name)
        \<and> (\<forall>cred opts ver info.
              body_username b = Some name \<and> body_credential b = Some cred
            \<and> regOptions d name = Some opts
            \<and> vr (registration_verify_args cfg cred opts) = Inr ver
            \<and> vr_verified ver \<and> registrationInfo ver = Some info
            \<longrightarrow> wc_id (ri_credential info) \<notin> set (user_ids d name))
      \<longrightarrow> distinct (user_ids (snd (register_verify vr cfg d b)) name))"
proof -
  have "distinct (user_ids (snd (register_verify vr cfg d b)) name)"
    if "distinct (user_ids d name)"
      and fresh: "\<forall>cred opts ver info.
              body_username b = Some name \<and> body_credential b = Some cred
            \<and> regOptions d name = Some opts
            \<and> vr (registration_verify_args cfg cred opts) = Inr ver
            \<and> vr_verified ver \<and> registrationInfo ver = Some info
            \<longrightarrow> wc_id (ri_credential info) \<notin> set (user_ids d name)"
    using user_ids_register_verify [of vr cfg d b name]
  proof
    assume "user_ids (snd (register_verify vr cfg d b)) name = user_ids d name"
    with that(1) show ?thesis by simp
  next
    assume "\<exists>cred user opts ver info.
         body_username b = Some name \<and> name \<noteq> [] \<and> body_credential b = Some cred
       \<and> users d name = Some user \<and> regOptions d name = Some opts
       \<and> vr (registration_verify_args cfg cred opts) = Inr ver
       \<and> vr_verified ver \<and> registrationInfo ver = Some info
       \<and> user_ids (snd (register_verify vr cfg d b)) name
            = user_ids d name @ [wc_id (ri_credential info)]"
    then obtain cred opts ver info where
      "body_username b = Some name" "body_credential b = Some cred"
      "regOptions d name = Some opts" "vr (registration_verify_args cfg cred opts) = Inr ver"
      "vr_verified ver" "registrationInfo ver = Some info"
      and app: "user_ids (snd (register_verify vr cfg d b)) name
            = user_ids d name @ [wc_id (ri_credential info)]"
      by blast
    with fresh have "wc_id (ri_credential info) \<notin> set (user_ids d name)" by blast
    with that(1) app show ?thesis by simp
  qed
  with user_ids_register_options [of gr cfg d u name] user_ids_login_options [of ga cfg d u name]
    user_ids_login_verify [of va cfg d b name] user_ids_register_verify [of vr cfg d b name]
  show ?thesis by blast
qed

theorem credential_ids_after_each_operation_witness:
  "user_ids db_pending ''alice'' = []
   \<and> user_ids (snd (register_verify (attested ''k1'' 5) cfg0 db_pending alice_finish)) ''alice'' = [''k1'']
   \<and> distinct (user_ids (snd (register_verify (attested ''k1'' 5) cfg0 db_pending alice_finish)) ''alice'')
   \<and> user_ids (snd (login_verify (asserted 6) cfg0 (db_login 5) alice_finish)) ''alice'' = [''k1'']"
  using credential_ids_after_each_operation [of "gen_reg ''c3''" cfg0 db_pending "Some ''alice''"
      "''alice''" "gen_auth ''c4''" "asserted 6" alice_finish "attested ''k1'' 5"]
    credential_ids_after_each_operation [of "gen_reg ''c3''" cfg0 "db_login 5" "Some ''alice''"
      "''alice''" "gen_auth ''c4''" "asserted 6" alice_finish "attested ''k1'' 5"]
  by (simp add: db_pending_eq db_login_eq user_ids_def key1_def alice_finish_def attested_def
      register_verify_def register_try_def push_passkey_def newPasskey_def)

text \<open>
  C8, as stated, fails: alice holds a passkey \<open>k1\<close>, begins a second registration, and
  the verifier returns a verified credential with the id \<open>k1\<close> again. The handler appends
  it, and her ids are \<open>k1, k1\<close>.
\<close>


theorem duplicate_credential_id_registered:
  "reachable cfg0 db_again
   \<and> user_ids db_again ''alice'' = [''k1'']
   \<and> register_verify (attested ''k1'' 0) cfg0 db_again alice_finish = (Json_verified True, db_twice)
   \<and> user_ids db_twice ''alice'' = [''k1'', ''k1'']
   \<and> \<not> distinct (user_ids db_twice ''alice'')"
proof -
  have "reachable cfg0 db_again"
    unfolding db_again_def by (intro reachable.register_options reachable_db_registered)
  moreover have "register_verify (attested ''k1'' 0) cfg0 db_again alice_finish
      = (Json_verified True, db_twice)"
    by (simp add: db_twice_eq db_again_eq register_verify_def register_try_def
      push_passkey_def newPasskey_def attested_def alice_finish_def key1_def)
  moreover have "user_ids db_again ''alice'' = [''k1'']" "user_ids db_twice ''alice'' = [''k1'', ''k1'']"
    by (simp_all add: db_again_eq db_twice_eq user_ids_def key1_def)
  ultimately show ?thesis by simp
qed

subsection \<open>One pending challenge per username and kind\<close>




end
